theory Spec2Isabelle
  imports Complex_Main "HOL-Library.Multiset" "HOL-Library.AList"
begin

section \<open>Data model of \<open>brainstorm/data_iterators.py\<close>\<close>

text \<open>
  The exceptions the module can raise. \<open>IteratorValidationError\<close> is the module's own
  error (imported from \<open>brainstorm.utils\<close>); the others are Python's built-in ones,
  raised by \<open>assert\<close>, by a missing attribute, by \<open>min\<close> of an empty sequence, by
  numpy's broadcasting, by tuple unpacking and by subscripting. Messages are not modelled.
\<close>

datatype error =
    IteratorValidationError
  | AssertionError
  | AttributeError
  | ValueError
  | ZeroDivisionError
  | KeyError
  | TypeError
  | IndexError

text \<open>
  A numpy array is its \<open>shape\<close> tuple together with its elements as nested lists, one
  nesting level per axis. The shape is kept beside the elements because an axis of
  extent 0 leaves no element to read the later extents from. Elements are idealised as
  reals; rounding of floating point numbers is outside the model.
\<close>

datatype nd = Elem real | Dim "nd list"

datatype ndarray = NdArray (shape: "nat list") (buffer: nd)

text \<open>\<open>wf_nd s x\<close>: the nested lists \<open>x\<close> have the extents \<open>s\<close>.\<close>

fun wf_nd :: "nat list \<Rightarrow> nd \<Rightarrow> bool" where
  "wf_nd [] (Elem x) = True"
| "wf_nd (n # s) (Dim xs) = (length xs = n \<and> list_all (wf_nd s) xs)"
| "wf_nd [] (Dim xs) = False"
| "wf_nd (n # s) (Elem x) = False"

definition wf_array :: "ndarray \<Rightarrow> bool" where
  "wf_array a = wf_nd (shape a) (buffer a)"

text \<open>
  A value stored under a data name: a numpy array, or some object that has no
  \<open>shape\<close> attribute. (Objects that have a shape without being numpy arrays are
  outside the model.)
\<close>

datatype pyobj = Arr ndarray | Obj

text \<open>
  A Python dict with string keys, as an association list in the dict's iteration order;
  \<open>d[k]\<close> is \<open>map_of d k\<close> and \<open>d[k] = v\<close> is \<open>AList.update k v d\<close>.
\<close>

type_synonym named_data = "(string \<times> pyobj) list"

section \<open>The shape validator\<close>

text \<open>
  The loop of \<open>_assert_correct_data_format\<close>: the second and first extents of every
  entry, in iteration order, or the error of the first entry that has no shape or fewer
  than three axes.
\<close>

fun collect_extents :: "named_data \<Rightarrow> error + (nat list \<times> nat list)" where
  "collect_extents [] = Inr ([], [])"
| "collect_extents ((name, d) # rest) =
     (case d of
        Obj \<Rightarrow> Inl IteratorValidationError
      | Arr a \<Rightarrow>
          if length (shape a) < 3 then Inl IteratorValidationError
          else (case collect_extents rest of
                  Inl e \<Rightarrow> Inl e
                | Inr (seqs, steps) \<Rightarrow> Inr (shape a ! 1 # seqs, shape a ! 0 # steps)))"

text \<open>Python's \<open>min\<close> and \<open>max\<close>: a \<open>ValueError\<close> on an empty sequence.\<close>

fun py_min :: "nat list \<Rightarrow> error + nat" where
  "py_min [] = Inl ValueError"
| "py_min (x # xs) = Inr (fold min xs x)"

fun py_max :: "nat list \<Rightarrow> error + nat" where
  "py_max [] = Inl ValueError"
| "py_max (x # xs) = Inr (fold max xs x)"

text \<open>\<open>min(v) != max(v)\<close>, with the error of whichever call raises first.\<close>

definition min_differs_max :: "nat list \<Rightarrow> error + bool" where
  "min_differs_max v =
     (case py_min v of
        Inl e \<Rightarrow> Inl e
      | Inr lo \<Rightarrow> (case py_max v of Inl e \<Rightarrow> Inl e | Inr hi \<Rightarrow> Inr (lo \<noteq> hi)))"

definition assert_correct_data_format :: "named_data \<Rightarrow> error + nat" where
  "assert_correct_data_format named_data =
     (case collect_extents named_data of
        Inl e \<Rightarrow> Inl e
      | Inr (nr_sequences, nr_timesteps) \<Rightarrow>
          (case min_differs_max nr_sequences of
             Inl e \<Rightarrow> Inl e
           | Inr True \<Rightarrow> Inl IteratorValidationError
           | Inr False \<Rightarrow>
               (case min_differs_max nr_timesteps of
                  Inl e \<Rightarrow> Inl e
                | Inr True \<Rightarrow> Inl IteratorValidationError
                | Inr False \<Rightarrow> py_min nr_sequences)))"

section \<open>Objects and references\<close>

text \<open>
  Dicts and random number generators are objects that several places can hold and
  change, so they live in a store and are named by their index there. \<open>seen\<close> is the
  consumer's record of the batches it has received, each as the dict read at the moment
  it was yielded. Arrays are values: the module never writes into an array that already
  exists (every array it writes to, it has just allocated).
\<close>

type_synonym ref = nat

record 'r world =
  dicts :: "named_data list"
  rnds :: "'r list"
  seen :: "named_data list"

definition new_dict :: "named_data \<Rightarrow> 'r world \<Rightarrow> ref \<times> 'r world" where
  "new_dict d w = (length (dicts w), w\<lparr>dicts := dicts w @ [d]\<rparr>)"

definition new_rnd :: "'r \<Rightarrow> 'r world \<Rightarrow> ref \<times> 'r world" where
  "new_rnd seed w = (length (rnds w), w\<lparr>rnds := rnds w @ [seed]\<rparr>)"

text \<open>
  Modelled from the spec: \<open>brainstorm.randomness.Seedable\<close> is not among the sources.
  The spec gives every iterator that needs randomness its own seedable pseudo-random
  source, \<open>self.rnd\<close>. The four draws the module asks of it are taken as parameters over
  an arbitrary generator state \<open>'r\<close>; a seed is the state the generator starts in.
  \<open>standard_normal\<close> is one draw; an array of them is drawn element by element.
\<close>

record 'r rng_ops =
  rnd_shuffle :: "'r \<Rightarrow> nat list \<Rightarrow> nat list \<times> 'r"
  rnd_random_sample :: "'r \<Rightarrow> real \<times> 'r"
  rnd_random_integers :: "'r \<Rightarrow> int \<Rightarrow> int \<Rightarrow> nat \<Rightarrow> int list \<times> 'r"
  rnd_standard_normal :: "'r \<Rightarrow> real \<times> 'r"




section \<open>Iterators\<close>

text \<open>
  One constructor per class, holding the attributes \<open>__init__\<close> stores and \<open>__call__\<close>
  reads, in this order: \<open>Undivided data\<close>, \<open>Online shuffle rnd nr_sequences data\<close>,
  \<open>Minibatches batch_size shuffle rnd nr_sequences data\<close>,
  \<open>AddGaussianNoise iter std_dict mean_dict rnd\<close>, \<open>Flip iter prob_dict rnd\<close>,
  \<open>Pad iter size_dict value_dict rnd\<close>, \<open>RandomCrop iter shape_dict rnd\<close>.
  Only the three base iterators have a \<open>data\<close> attribute. The attributes
  \<open>data_names\<close>, \<open>total_size\<close>, \<open>sample_size\<close> and \<open>verbose\<close> are left out: nothing
  modelled here reads them; the progress bar only prints.
\<close>

datatype iterator =
    Undivided ref
  | Online bool ref nat ref
  | Minibatches int bool ref nat ref
  | AddGaussianNoise iterator "(string \<times> real) list" "(string \<times> real) list" ref
  | Flip iterator "(string \<times> real) list" ref
  | Pad iterator "(string \<times> int) list" "(string \<times> real) list" ref
  | RandomCrop iterator "(string \<times> int list) list" ref

text \<open>\<open>iter.data\<close>: the dict of a base iterator, an \<open>AttributeError\<close> on a decorator.\<close>

fun data_attr :: "iterator \<Rightarrow> 'r world \<Rightarrow> error + named_data" where
  "data_attr (Undivided d) w = Inr (dicts w ! d)"
| "data_attr (Online sh r n d) w = Inr (dicts w ! d)"
| "data_attr (Minibatches k sh r n d) w = Inr (dicts w ! d)"
| "data_attr (AddGaussianNoise it sd md r) w = Inl AttributeError"
| "data_attr (Flip it pd r) w = Inl AttributeError"
| "data_attr (Pad it sd vd r) w = Inl AttributeError"
| "data_attr (RandomCrop it sd r) w = Inl AttributeError"

text \<open>A \<open>for\<close> loop whose body may raise: the first error ends it.\<close>

fun for_each :: "'x list \<Rightarrow> ('x \<Rightarrow> 's \<Rightarrow> error + 's) \<Rightarrow> 's \<Rightarrow> error + 's" where
  "for_each [] body s = Inr s"
| "for_each (x # xs) body s =
     (case body x s of Inl e \<Rightarrow> Inl e | Inr s' \<Rightarrow> for_each xs body s')"

subsection \<open>Base iterators: construction\<close>

definition Undivided_init :: "named_data \<Rightarrow> 'r world \<Rightarrow> error + iterator \<times> 'r world" where
  "Undivided_init named_data w =
     (case assert_correct_data_format named_data of
        Inl e \<Rightarrow> Inl e
      | Inr _ \<Rightarrow> (let (d, w1) = new_dict named_data w in Inr (Undivided d, w1)))"

definition Online_init ::
  "bool \<Rightarrow> 'r \<Rightarrow> named_data \<Rightarrow> 'r world \<Rightarrow> error + iterator \<times> 'r world" where
  "Online_init shuffle seed named_data w =
     (let (r, w1) = new_rnd seed w in
      case assert_correct_data_format named_data of
        Inl e \<Rightarrow> Inl e
      | Inr n \<Rightarrow> (let (d, w2) = new_dict named_data w1 in Inr (Online shuffle r n d, w2)))"

definition Minibatches_init ::
  "int \<Rightarrow> bool \<Rightarrow> 'r \<Rightarrow> named_data \<Rightarrow> 'r world \<Rightarrow> error + iterator \<times> 'r world" where
  "Minibatches_init batch_size shuffle seed named_data w =
     (let (r, w1) = new_rnd seed w in
      case assert_correct_data_format named_data of
        Inl e \<Rightarrow> Inl e
      | Inr n \<Rightarrow>
          (let (d, w2) = new_dict named_data w1 in Inr (Minibatches batch_size shuffle r n d, w2)))"

subsection \<open>Decorators: construction\<close>

text \<open>
  The checks each \<open>__init__\<close> makes for one configured key, in the source's order.
  \<open>iter.data\<close> is read inside the loop, so it is only read when there is a key.
\<close>

definition check_present_ndarray :: "iterator \<Rightarrow> 'r world \<Rightarrow> string \<Rightarrow> error + ndarray" where
  "check_present_ndarray it w key =
     (case data_attr it w of
        Inl e \<Rightarrow> Inl e
      | Inr d \<Rightarrow>
          (case map_of d key of
             None \<Rightarrow> Inl IteratorValidationError
           | Some Obj \<Rightarrow> Inl IteratorValidationError
           | Some (Arr a) \<Rightarrow> Inr a))"

definition check_noise_key :: "iterator \<Rightarrow> 'r world \<Rightarrow> string \<Rightarrow> unit \<Rightarrow> error + unit" where
  "check_noise_key it w key u =
     (case check_present_ndarray it w key of Inl e \<Rightarrow> Inl e | Inr a \<Rightarrow> Inr ())"

definition AddGaussianNoise_init ::
  "iterator \<Rightarrow> (string \<times> real) list \<Rightarrow> (string \<times> real) list option \<Rightarrow> 'r \<Rightarrow> 'r world
     \<Rightarrow> error + iterator \<times> 'r world" where
  "AddGaussianNoise_init it std_dict mean_dict seed w =
     (let (r, w1) = new_rnd seed w in
      if (case mean_dict of
            None \<Rightarrow> False
          | Some m \<Rightarrow> set (map fst m) \<noteq> set (map fst std_dict))
      then Inl AssertionError
      else
        (case for_each (map fst std_dict) (check_noise_key it w1) () of
           Inl e \<Rightarrow> Inl e
         | Inr _ \<Rightarrow>
             Inr (AddGaussianNoise it std_dict (case mean_dict of None \<Rightarrow> [] | Some m \<Rightarrow> m) r,
                  w1)))"

definition check_flip_key ::
  "iterator \<Rightarrow> 'r world \<Rightarrow> (string \<times> real) list \<Rightarrow> string \<Rightarrow> unit \<Rightarrow> error + unit" where
  "check_flip_key it w prob_dict key u =
     (case data_attr it w of
        Inl e \<Rightarrow> Inl e
      | Inr d \<Rightarrow>
          (case map_of d key of
             None \<Rightarrow> Inl IteratorValidationError
           | Some v \<Rightarrow>
               (case map_of prob_dict key of
                  None \<Rightarrow> Inl KeyError
                | Some p \<Rightarrow>
                    if p > 1 \<or> p < 0 then Inl IteratorValidationError
                    else (case v of
                            Obj \<Rightarrow> Inl IteratorValidationError
                          | Arr a \<Rightarrow>
                              if length (shape a) \<noteq> 5 then Inl IteratorValidationError
                              else Inr ()))))"

definition Flip_init ::
  "iterator \<Rightarrow> (string \<times> real) list option \<Rightarrow> 'r \<Rightarrow> 'r world \<Rightarrow> error + iterator \<times> 'r world"
  where
  "Flip_init it prob_dict seed w =
     (let (r, w1) = new_rnd seed w;
          prob_dict = (case prob_dict of None \<Rightarrow> [(''default'', 1 / 2)] | Some p \<Rightarrow> p)
      in case for_each (map fst prob_dict) (check_flip_key it w1 prob_dict) () of
           Inl e \<Rightarrow> Inl e
         | Inr _ \<Rightarrow> Inr (Flip it prob_dict r, w1))"

definition check_5d_key :: "iterator \<Rightarrow> 'r world \<Rightarrow> string \<Rightarrow> error + ndarray" where
  "check_5d_key it w key =
     (case check_present_ndarray it w key of
        Inl e \<Rightarrow> Inl e
      | Inr a \<Rightarrow> if length (shape a) \<noteq> 5 then Inl IteratorValidationError else Inr a)"

definition check_pad_key :: "iterator \<Rightarrow> 'r world \<Rightarrow> string \<Rightarrow> unit \<Rightarrow> error + unit" where
  "check_pad_key it w key u =
     (case check_5d_key it w key of Inl e \<Rightarrow> Inl e | Inr a \<Rightarrow> Inr ())"

definition Pad_init ::
  "iterator \<Rightarrow> (string \<times> int) list \<Rightarrow> (string \<times> real) list option \<Rightarrow> 'r \<Rightarrow> 'r world
     \<Rightarrow> error + iterator \<times> 'r world" where
  "Pad_init it size_dict value_dict seed w =
     (let (r, w1) = new_rnd seed w in
      if (case value_dict of
            None \<Rightarrow> False
          | Some v \<Rightarrow> set (map fst size_dict) \<noteq> set (map fst v))
      then Inl IteratorValidationError
      else
        (case for_each (map fst size_dict) (check_pad_key it w1) () of
           Inl e \<Rightarrow> Inl e
         | Inr _ \<Rightarrow>
             Inr (Pad it size_dict (case value_dict of None \<Rightarrow> [] | Some v \<Rightarrow> v) r, w1)))"

text \<open>
  A crop shape is a tuple of integers, so of the test
  \<open>isinstance(val, tuple) and len(val) == 2\<close> only the length can fail.
\<close>

definition check_crop_item ::
  "iterator \<Rightarrow> 'r world \<Rightarrow> string \<times> int list \<Rightarrow> unit \<Rightarrow> error + unit" where
  "check_crop_item it w item u =
     (case check_5d_key it w (fst item) of
        Inl e \<Rightarrow> Inl e
      | Inr a \<Rightarrow>
          if length (snd item) \<noteq> 2 then Inl IteratorValidationError
          else if snd item ! 0 > int (shape a ! 3) \<or> snd item ! 0 < 0
            then Inl IteratorValidationError
          else if snd item ! 1 > int (shape a ! 4) \<or> snd item ! 1 < 0
            then Inl IteratorValidationError
          else Inr ())"

definition RandomCrop_init ::
  "iterator \<Rightarrow> (string \<times> int list) list \<Rightarrow> 'r \<Rightarrow> 'r world \<Rightarrow> error + iterator \<times> 'r world"
  where
  "RandomCrop_init it shape_dict seed w =
     (let (r, w1) = new_rnd seed w in
      case for_each shape_dict (check_crop_item it w1) () of
        Inl e \<Rightarrow> Inl e
      | Inr _ \<Rightarrow> Inr (RandomCrop it shape_dict r, w1))"

section \<open>Array operations\<close>

text \<open>\<open>map_axis d f\<close> rewrites, everywhere in the array, the list of items along axis \<open>d\<close>.\<close>

fun map_axis :: "nat \<Rightarrow> (nd list \<Rightarrow> nd list) \<Rightarrow> nd \<Rightarrow> nd" where
  "map_axis 0 f (Dim xs) = Dim (f xs)"
| "map_axis (Suc d) f (Dim xs) = Dim (map (map_axis d f) xs)"
| "map_axis d f (Elem x) = Elem x"

fun nd_items :: "nd \<Rightarrow> nd list" where
  "nd_items (Dim xs) = xs"
| "nd_items (Elem x) = []"

text \<open>\<open>a[i, j, ...]\<close> for indices within the extents.\<close>

fun nd_get :: "nd \<Rightarrow> nat list \<Rightarrow> nd" where
  "nd_get x [] = x"
| "nd_get x (i # idx) = nd_get (nd_items x ! i) idx"

text \<open>
  The slice \<open>xs[a:b]\<close> for bounds that are not negative, and the number of items it
  has on an axis of extent \<open>n\<close>: Python clips both bounds to \<open>n\<close>.
\<close>

definition slice_list :: "nat \<Rightarrow> nat \<Rightarrow> 'a list \<Rightarrow> 'a list" where
  "slice_list a b xs = take (b - a) (drop a xs)"

definition slice_extent :: "nat \<Rightarrow> nat \<Rightarrow> nat \<Rightarrow> nat" where
  "slice_extent a b n = min b n - min a n"

text \<open>\<open>v[:, a:b]\<close>: the samples \<open>a\<close> to \<open>b\<close>, all time steps.\<close>

definition getitem_samples :: "pyobj \<Rightarrow> nat \<Rightarrow> nat \<Rightarrow> error + pyobj" where
  "getitem_samples v a b =
     (case v of
        Obj \<Rightarrow> Inl TypeError
      | Arr x \<Rightarrow>
          if length (shape x) < 2 then Inl IndexError
          else Inr (Arr (NdArray ((shape x)[1 := slice_extent a b (shape x ! 1)])
                                 (map_axis 1 (slice_list a b) (buffer x)))))"

text \<open>The dict comprehension \<open>{k: v[:, a:b] for k, v in self.data.items()}\<close>.\<close>

fun slice_all :: "nat \<Rightarrow> nat \<Rightarrow> named_data \<Rightarrow> error + named_data" where
  "slice_all a b [] = Inr []"
| "slice_all a b ((k, v) # rest) =
     (case getitem_samples v a b of
        Inl e \<Rightarrow> Inl e
      | Inr v' \<Rightarrow>
          (case slice_all a b rest of Inl e \<Rightarrow> Inl e | Inr rest' \<Rightarrow> Inr ((k, v') # rest')))"

text \<open>\<open>v[..., ::-1]\<close>: the last axis reversed.\<close>

definition flip_last :: "pyobj \<Rightarrow> error + pyobj" where
  "flip_last v =
     (case v of
        Obj \<Rightarrow> Inl TypeError
      | Arr x \<Rightarrow>
          if shape x = [] then Inl IndexError
          else Inr (Arr (NdArray (shape x) (map_axis (length (shape x) - 1) rev (buffer x)))))"

text \<open>
  \<open>x + std * noise + mean\<close> with \<open>noise = standard_normal(x.shape)\<close>: one draw for every
  element, in the array's own order.
\<close>

fun add_noise :: "('r \<Rightarrow> real \<times> 'r) \<Rightarrow> real \<Rightarrow> real \<Rightarrow> nd \<Rightarrow> 'r \<Rightarrow> nd \<times> 'r"
  and add_noise_list :: "('r \<Rightarrow> real \<times> 'r) \<Rightarrow> real \<Rightarrow> real \<Rightarrow> nd list \<Rightarrow> 'r \<Rightarrow> nd list \<times> 'r"
  where
  "add_noise normal std mean (Elem x) s =
     (let (z, s1) = normal s in (Elem (x + std * z + mean), s1))"
| "add_noise normal std mean (Dim xs) s =
     (let (ys, s1) = add_noise_list normal std mean xs s in (Dim ys, s1))"
| "add_noise_list normal std mean [] s = ([], s)"
| "add_noise_list normal std mean (x # xs) s =
     (let (y, s1) = add_noise normal std mean x s;
          (ys, s2) = add_noise_list normal std mean xs s1
      in (y # ys, s2))"

text \<open>
  A slice bound \<open>i\<close>, possibly negative, on an axis of extent \<open>n\<close>: negative bounds count
  from the end, and every bound is clipped to the axis.
\<close>

definition slice_bound :: "int \<Rightarrow> nat \<Rightarrow> nat" where
  "slice_bound i n = (if i < 0 then nat (max (i + int n) 0) else min (nat i) n)"

text \<open>numpy's broadcasting of an extent \<open>e\<close> to an extent \<open>m\<close>.\<close>

definition broadcastable :: "nat \<Rightarrow> nat \<Rightarrow> bool" where
  "broadcastable e m = (e = m \<or> e = 1)"

text \<open>
  One image of \<open>new_data\<close> after \<open>new_data[..., r0:r1, c0:c1] = image\<close>: \<open>H\<close> rows of \<open>W\<close>
  elements, \<open>val\<close> everywhere but in the window, which holds the rows of the \<open>h\<close> by \<open>w\<close>
  source image (an extent of 1 is repeated, as broadcasting does).
\<close>

definition assign_window ::
  "real \<Rightarrow> nat \<Rightarrow> nat \<Rightarrow> nat \<Rightarrow> nat \<Rightarrow> nat \<Rightarrow> nat \<Rightarrow> nat \<Rightarrow> nat \<Rightarrow> nd list \<Rightarrow> nd list" where
  "assign_window val r0 r1 c0 c1 H W h w rows =
     map (\<lambda>i. Dim (map (\<lambda>j.
            if r0 \<le> i \<and> i < r1 \<and> c0 \<le> j \<and> j < c1
            then nd_items (rows ! (if h = 1 then 0 else i - r0)) ! (if w = 1 then 0 else j - c0)
            else Elem val) [0..<W])) [0..<H]"

text \<open>
  Modelled from the spec: the crop kernel \<open>brainstorm.handlers._cpuop._crop_images\<close> is
  not among the sources. By the spec it extracts, for every sample and every time step
  and channel, the window of the crop size that starts at that sample's offsets, in the
  order of the input.
\<close>

definition crop_image :: "nat \<Rightarrow> nat \<Rightarrow> nat \<Rightarrow> nat \<Rightarrow> nd \<Rightarrow> nd" where
  "crop_image r c crop_h crop_w =
     map_axis 0 (\<lambda>rows. map (map_axis 0 (slice_list c (c + crop_w))) (slice_list r (r + crop_h) rows))"

definition crop_samples :: "nat \<Rightarrow> nat \<Rightarrow> int list \<Rightarrow> int list \<Rightarrow> nd list \<Rightarrow> nd list" where
  "crop_samples crop_h crop_w row_indices col_indices samples =
     map (\<lambda>b. map_axis 0 (map (crop_image (nat (row_indices ! b)) (nat (col_indices ! b))
                                  crop_h crop_w)) (samples ! b))
         [0..<length samples]"

definition crop_images :: "nd \<Rightarrow> nat \<Rightarrow> nat \<Rightarrow> int list \<Rightarrow> int list \<Rightarrow> nd" where
  "crop_images x crop_h crop_w row_indices col_indices =
     map_axis 1 (crop_samples crop_h crop_w row_indices col_indices) x"

section \<open>Producing batches\<close>

text \<open>
  \<open>self.rnd.f(...)\<close>: a draw from the generator object \<open>r\<close>, whose state advances in the
  store.
\<close>

definition draw :: "ref \<Rightarrow> ('r \<Rightarrow> 'a \<times> 'r) \<Rightarrow> 'r world \<Rightarrow> 'a \<times> 'r world" where
  "draw r f w = (let (x, s) = f (rnds w ! r) in (x, w\<lparr>rnds := (rnds w)[r := s]\<rparr>))"

text \<open>
  The body of a decorator's outer loop works on the yielded dict \<open>data\<close> and on the
  decorator's own generator, and on nothing else: \<open>on_batch\<close> runs it on these two
  objects and stores what it leaves.
\<close>

definition on_batch ::
  "ref \<Rightarrow> ref \<Rightarrow> ('r \<times> named_data \<Rightarrow> error + 'r \<times> named_data) \<Rightarrow> 'r world \<Rightarrow> error + 'r world"
  where
  "on_batch r data body w =
     (case body (rnds w ! r, dicts w ! data) of
        Inl e \<Rightarrow> Inl e
      | Inr (s, d) \<Rightarrow> Inr (w\<lparr>rnds := (rnds w)[r := s], dicts := (dicts w)[data := d]\<rparr>))"

subsection \<open>\<open>AddGaussianNoise.__call__\<close>\<close>

fun AddGaussianNoise_step ::
  "'r rng_ops \<Rightarrow> (string \<times> real) list \<Rightarrow> (string \<times> real) list \<Rightarrow> string
     \<Rightarrow> 'r \<times> named_data \<Rightarrow> error + 'r \<times> named_data" where
  "AddGaussianNoise_step ops std_dict mean_dict key (s, d) =
     (let mean = (case map_of mean_dict key of None \<Rightarrow> 0 | Some m \<Rightarrow> m) in
      case map_of std_dict key of
        None \<Rightarrow> Inl TypeError
      | Some std \<Rightarrow>
          (case map_of d key of
             None \<Rightarrow> Inl KeyError
           | Some Obj \<Rightarrow> Inl AttributeError
           | Some (Arr a) \<Rightarrow>
               (let (x, s1) = add_noise (rnd_standard_normal ops) std mean (buffer a) s
                in Inr (s1, AList.update key (Arr (NdArray (shape a) x)) d))))"

subsection \<open>\<open>Flip.__call__\<close>\<close>

fun Flip_step ::
  "'r rng_ops \<Rightarrow> (string \<times> real) list \<Rightarrow> string \<Rightarrow> 'r \<times> named_data \<Rightarrow> error + 'r \<times> named_data"
  where
  "Flip_step ops prob_dict name (s, d) =
     (let (u, s1) = rnd_random_sample ops s in
      case map_of prob_dict name of
        None \<Rightarrow> Inl KeyError
      | Some p \<Rightarrow>
          if u < p then
            (case map_of d name of
               None \<Rightarrow> Inl KeyError
             | Some v \<Rightarrow>
                 (case flip_last v of
                    Inl e \<Rightarrow> Inl e
                  | Inr v' \<Rightarrow> Inr (s1, AList.update name v' d)))
          else Inr (s1, d))"

subsection \<open>\<open>Pad.__call__\<close>\<close>

text \<open>
  Unpacking the shape into five names needs five extents; \<open>np.ones\<close> refuses a negative
  extent; the assignment refuses a source that does not broadcast to the window
  \<open>size:-size\<close> of both image axes (\<open>sz\<close> is the source's \<open>size\<close>).
\<close>

fun Pad_step ::
  "(string \<times> int) list \<Rightarrow> (string \<times> real) list \<Rightarrow> string \<Rightarrow> 'r \<times> named_data
     \<Rightarrow> error + 'r \<times> named_data" where
  "Pad_step size_dict value_dict name (s, d) =
     (case map_of d name of
        None \<Rightarrow> Inl KeyError
      | Some Obj \<Rightarrow> Inl AttributeError
      | Some (Arr a) \<Rightarrow>
          if length (shape a) \<noteq> 5 then Inl ValueError
          else
            (case map_of size_dict name of
               None \<Rightarrow> Inl KeyError
             | Some sz \<Rightarrow>
                 (let h = shape a ! 3; w = shape a ! 4;
                      val = (case map_of value_dict name of None \<Rightarrow> 0 | Some v \<Rightarrow> v);
                      H = int h + 2 * sz; W = int w + 2 * sz
                  in if H < 0 \<or> W < 0 then Inl ValueError
                     else
                       (let r0 = slice_bound sz (nat H); r1 = slice_bound (- sz) (nat H);
                            c0 = slice_bound sz (nat W); c1 = slice_bound (- sz) (nat W)
                        in if broadcastable h (r1 - r0) \<and> broadcastable w (c1 - c0)
                           then Inr (s, AList.update name
                                  (Arr (NdArray (take 3 (shape a) @ [nat H, nat W])
                                     (map_axis 3 (assign_window val r0 r1 c0 c1 (nat H) (nat W) h w)
                                        (buffer a)))) d)
                           else Inl ValueError))))"

subsection \<open>\<open>RandomCrop.__call__\<close>\<close>

text \<open>\<open>random_integers(low, high, size)\<close> raises when \<open>high < low\<close>.\<close>

definition draw_integers ::
  "'r rng_ops \<Rightarrow> 'r \<Rightarrow> int \<Rightarrow> int \<Rightarrow> nat \<Rightarrow> error + int list \<times> 'r" where
  "draw_integers ops s lo hi n =
     (if hi < lo then Inl ValueError else Inr (rnd_random_integers ops s lo hi n))"

text \<open>
  The kernel takes arrays of five axes; the shape is indexed up to axis 4 before it is
  called.
\<close>

fun RandomCrop_step ::
  "'r rng_ops \<Rightarrow> (string \<times> int list) list \<Rightarrow> string \<Rightarrow> 'r \<times> named_data
     \<Rightarrow> error + 'r \<times> named_data" where
  "RandomCrop_step ops shape_dict name (s, d) =
     (case map_of shape_dict name of
        None \<Rightarrow> Inl KeyError
      | Some val \<Rightarrow>
          if length val \<noteq> 2 then Inl ValueError
          else
            (let crop_h = val ! 0; crop_w = val ! 1 in
             case map_of d name of
               None \<Rightarrow> Inl KeyError
             | Some Obj \<Rightarrow> Inl AttributeError
             | Some (Arr a) \<Rightarrow>
                 if length (shape a) < 5 then Inl IndexError
                 else
                   (let batch_size = shape a ! 1;
                        max_r = int (shape a ! 3) - crop_h;
                        max_c = int (shape a ! 4) - crop_w
                    in case draw_integers ops s 0 max_r batch_size of
                         Inl e \<Rightarrow> Inl e
                       | Inr (row_indices, s1) \<Rightarrow>
                           (case draw_integers ops s1 0 max_c batch_size of
                              Inl e \<Rightarrow> Inl e
                            | Inr (col_indices, s2) \<Rightarrow>
                                if crop_h < 0 \<or> crop_w < 0 \<or> length (shape a) \<noteq> 5
                                then Inl ValueError
                                else Inr (s2, AList.update name
                                       (Arr (NdArray (take 3 (shape a) @ [nat crop_h, nat crop_w])
                                          (crop_images (buffer a) (nat crop_h) (nat crop_w)
                                             row_indices col_indices))) d)))))"

subsection \<open>The generators\<close>

text \<open>
  A base iterator builds a new dict for every batch and yields it; \<open>k\<close> is everything
  that happens with the yielded dict before the generator is resumed.
\<close>

definition yield_slice ::
  "ref \<Rightarrow> nat \<Rightarrow> nat \<Rightarrow> (ref \<Rightarrow> 'r world \<Rightarrow> error + 'r world) \<Rightarrow> 'r world \<Rightarrow> error + 'r world"
  where
  "yield_slice d a b k w =
     (case slice_all a b (dicts w ! d) of
        Inl e \<Rightarrow> Inl e
      | Inr batch \<Rightarrow> (let (data, w1) = new_dict batch w in k data w1))"

text \<open>
  \<open>np.arange(n)\<close>, shuffled in place by the iterator's own generator when \<open>shuffle\<close> is
  set.
\<close>

definition arange_shuffled ::
  "'r rng_ops \<Rightarrow> bool \<Rightarrow> ref \<Rightarrow> nat \<Rightarrow> 'r world \<Rightarrow> nat list \<times> 'r world" where
  "arange_shuffled ops shuffle r n w =
     (if shuffle then draw r (\<lambda>s. rnd_shuffle ops s [0..<n]) w else ([0..<n], w))"

text \<open>
  \<open>__call__\<close> of every class, run until the generator is exhausted. A generator that
  loops over an inner generator, changes the dict it gets and yields it on, is the inner
  generator run with that change put before \<open>k\<close>: each batch passes through every stage
  before the innermost generator goes on to the next one. The arguments \<open>handler\<close> and
  \<open>verbose\<close> and the progress bar are left out: they only decide what is printed.
  \<open>Undivided\<close> yields its own dict, not a copy.
\<close>

fun run ::
  "'r rng_ops \<Rightarrow> iterator \<Rightarrow> (ref \<Rightarrow> 'r world \<Rightarrow> error + 'r world) \<Rightarrow> 'r world \<Rightarrow> error + 'r world"
  where
  "run ops (Undivided d) k w = k d w"
| "run ops (Online shuffle r n d) k w =
     (let (indices, w1) = arange_shuffled ops shuffle r n w
      in for_each indices (\<lambda>idx. yield_slice d idx (idx + 1) k) w1)"
| "run ops (Minibatches batch_size shuffle r n d) k w =
     (if batch_size = 0 then Inl ZeroDivisionError
      else
        (let (indices, w1) =
               arange_shuffled ops shuffle r (nat \<lceil>real n / real_of_int batch_size\<rceil>) w
         in for_each indices
              (\<lambda>idx. yield_slice d (idx * nat batch_size) ((idx + 1) * nat batch_size) k) w1))"
| "run ops (AddGaussianNoise it std_dict mean_dict r) k w =
     run ops it
       (\<lambda>data w1.
          case on_batch r data
                 (for_each (map fst std_dict) (AddGaussianNoise_step ops std_dict mean_dict)) w1 of
            Inl e \<Rightarrow> Inl e
          | Inr w2 \<Rightarrow> k data w2) w"
| "run ops (Flip it prob_dict r) k w =
     run ops it
       (\<lambda>data w1.
          case on_batch r data (for_each (map fst prob_dict) (Flip_step ops prob_dict)) w1 of
            Inl e \<Rightarrow> Inl e
          | Inr w2 \<Rightarrow> k data w2) w"
| "run ops (Pad it size_dict value_dict r) k w =
     run ops it
       (\<lambda>data w1.
          case on_batch r data (for_each (map fst size_dict) (Pad_step size_dict value_dict)) w1 of
            Inl e \<Rightarrow> Inl e
          | Inr w2 \<Rightarrow> k data w2) w"
| "run ops (RandomCrop it shape_dict r) k w =
     run ops it
       (\<lambda>data w1.
          case on_batch r data (for_each (map fst shape_dict) (RandomCrop_step ops shape_dict)) w1 of
            Inl e \<Rightarrow> Inl e
          | Inr w2 \<Rightarrow> k data w2) w"

text \<open>The consumer: it reads every batch it is handed, and asks for the next.\<close>

definition receive :: "ref \<Rightarrow> 'r world \<Rightarrow> error + 'r world" where
  "receive data w = Inr (w\<lparr>seen := seen w @ [dicts w ! data]\<rparr>)"

definition call :: "'r rng_ops \<Rightarrow> iterator \<Rightarrow> 'r world \<Rightarrow> error + 'r world" where
  "call ops it w = run ops it receive (w\<lparr>seen := []\<rparr>)"


section \<open>Vocabulary of the statements\<close>












text \<open>
  \<open>b\<close> is \<open>a\<close> padded by \<open>s\<close> elements of \<open>v\<close> on every side of its last two axes: the
  two extents grow by \<open>2 * s\<close>, and, where \<open>a\<close> has the extents its shape says, \<open>b\<close> has
  its own, holds \<open>a\<close> at the offset \<open>s\<close> and \<open>v\<close> around it.
\<close>

definition pad_of :: "ndarray \<Rightarrow> nat \<Rightarrow> real \<Rightarrow> ndarray \<Rightarrow> bool" where
  "pad_of a s v b =
     (shape b = take 3 (shape a) @ [shape a ! 3 + 2 * s, shape a ! 4 + 2 * s] \<and>
      (wf_array a \<longrightarrow> wf_array b \<and>
         (\<forall>t < shape b ! 0. \<forall>n < shape b ! 1. \<forall>c < shape b ! 2.
            \<forall>i < shape b ! 3. \<forall>j < shape b ! 4.
              nd_get (buffer b) [t, n, c, i, j] =
              (if s \<le> i \<and> i < s + shape a ! 3 \<and> s \<le> j \<and> j < s + shape a ! 4
               then nd_get (buffer a) [t, n, c, i - s, j - s] else Elem v))))"


section \<open>Example data\<close>

text \<open>
  A store with no objects, one 2 by 2 image as a five-axis array, the same image padded
  by one element of zeros, padded twice, and flipped along its last axis.
\<close>

definition empty_world :: "'r world" where
  "empty_world = \<lparr>dicts = [], rnds = [], seen = []\<rparr>"

definition image22 :: ndarray where
  "image22 = NdArray [1, 1, 1, 2, 2]
     (Dim [Dim [Dim [Dim [Dim [Elem 1, Elem 2], Dim [Elem 3, Elem 4]]]]])"

definition padded22 :: ndarray where
  "padded22 = NdArray [1, 1, 1, 4, 4]
     (Dim [Dim [Dim [Dim [Dim [Elem 0, Elem 0, Elem 0, Elem 0],
                          Dim [Elem 0, Elem 1, Elem 2, Elem 0],
                          Dim [Elem 0, Elem 3, Elem 4, Elem 0],
                          Dim [Elem 0, Elem 0, Elem 0, Elem 0]]]]])"

definition padded22_twice :: ndarray where
  "padded22_twice = NdArray [1, 1, 1, 6, 6]
     (Dim [Dim [Dim [Dim [Dim [Elem 0, Elem 0, Elem 0, Elem 0, Elem 0, Elem 0],
                          Dim [Elem 0, Elem 0, Elem 0, Elem 0, Elem 0, Elem 0],
                          Dim [Elem 0, Elem 0, Elem 1, Elem 2, Elem 0, Elem 0],
                          Dim [Elem 0, Elem 0, Elem 3, Elem 4, Elem 0, Elem 0],
                          Dim [Elem 0, Elem 0, Elem 0, Elem 0, Elem 0, Elem 0],
                          Dim [Elem 0, Elem 0, Elem 0, Elem 0, Elem 0, Elem 0]]]]])"

definition flipped22 :: ndarray where
  "flipped22 = NdArray [1, 1, 1, 2, 2]
     (Dim [Dim [Dim [Dim [Dim [Elem 2, Elem 1], Dim [Elem 4, Elem 3]]]]])"


text \<open>
  Two 2 by 2 images, the first one \<open>image22\<close>, as the two samples of a five-axis array,
  their labels, and the dataset that holds both.
\<close>

definition two_images :: ndarray where
  "two_images = NdArray [1, 2, 1, 2, 2]
     (Dim [Dim [Dim [Dim [Dim [Elem 1, Elem 2], Dim [Elem 3, Elem 4]]],
                Dim [Dim [Dim [Elem 5, Elem 6], Dim [Elem 7, Elem 8]]]]])"

definition two_labels :: ndarray where
  "two_labels = NdArray [1, 2, 1] (Dim [Dim [Dim [Elem 0], Dim [Elem 1]]])"

definition labelled_images :: named_data where
  "labelled_images = [(''default'', Arr two_images), (''targets'', Arr two_labels)]"

text \<open>
  A generator for examples. Its state counts the draws made; a shuffle reverses, a
  sample is a quarter, the integers drawn are the upper bound, a normal draw is one.
\<close>

definition demo_rng :: "nat rng_ops" where
  "demo_rng =
     \<lparr>rnd_shuffle = (\<lambda>s xs. (rev xs, Suc s)),
      rnd_random_sample = (\<lambda>s. (1 / 4, Suc s)),
      rnd_random_integers = (\<lambda>s lo hi n. (replicate n hi, Suc s)),
      rnd_standard_normal = (\<lambda>s. (1, Suc s))\<rparr>"

section \<open>Construction errors\<close>

lemma collect_extents_nonempty:
  "collect_extents d = Inr (seqs, steps) \<Longrightarrow> d \<noteq> [] \<Longrightarrow> seqs \<noteq> [] \<and> steps \<noteq> []"
  by (cases d) (auto split: pyobj.splits if_splits sum.splits)

lemma py_min_error: "(py_min v = Inl e) = (v = [] \<and> e = ValueError)"
  by (cases v) auto

lemma min_differs_max_error: "(min_differs_max v = Inl e) = (v = [] \<and> e = ValueError)"
  by (cases v) (auto simp: min_differs_max_def)

lemma collect_extents_error: "collect_extents d = Inl e \<Longrightarrow> e = IteratorValidationError"
  by (induction d arbitrary: e) (auto split: pyobj.splits if_splits sum.splits)

lemma validator_ValueError: "(assert_correct_data_format d = Inl ValueError) = (d = [])"
proof (cases "collect_extents d")
  case (Inl e)
  then have "e = IteratorValidationError" by (rule collect_extents_error)
  with Inl show ?thesis by (auto simp: assert_correct_data_format_def)
next
  case (Inr p)
  obtain seqs steps where p: "p = (seqs, steps)" by (cases p)
  show ?thesis
  proof (cases "d = []")
    case True
    then show ?thesis by (simp add: assert_correct_data_format_def min_differs_max_def)
  next
    case False
    with Inr p have "seqs \<noteq> []" "steps \<noteq> []" using collect_extents_nonempty by blast+
    with Inr p False show ?thesis
      by (auto simp: assert_correct_data_format_def min_differs_max_error py_min_error
          split: sum.splits bool.splits)
  qed
qed

lemma validator_empty: "assert_correct_data_format [] = Inl ValueError"
  by (simp add: validator_ValueError)

text \<open>
  C10. Constructing \<open>Undivided\<close>, \<open>Online\<close> or \<open>Minibatches\<close> with no named data fails,
  and the error is the \<open>ValueError\<close> of \<open>min\<close> on an empty sequence, not the iterator
  validation error; the validator raises that \<open>ValueError\<close> on the empty mapping only.
\<close>

theorem empty_data_raises_ValueError:
  "Undivided_init [] w = Inl ValueError \<and>
   Online_init shuffle seed [] w = Inl ValueError \<and>
   Minibatches_init batch_size shuffle seed [] w = Inl ValueError \<and>
   (assert_correct_data_format d = Inl ValueError) = (d = []) \<and>
   ValueError \<noteq> IteratorValidationError"
  by (simp add: validator_ValueError validator_empty Undivided_init_def Online_init_def
      Minibatches_init_def new_rnd_def)

text \<open>
  C1. A decorator has no \<open>data\<close> attribute, so each of the four decorators, given any
  decorator as its inner iterator and at least one configured name (for \<open>Flip\<close>, its
  default configuration), fails in \<open>__init__\<close> with an \<open>AttributeError\<close>.
\<close>

theorem decorator_on_decorator_raises_AttributeError:
  "list_all (\<lambda>inner.
       AddGaussianNoise_init inner ((key, std) # std_dict) None seed w = Inl AttributeError \<and>
       Flip_init inner None seed w = Inl AttributeError \<and>
       Pad_init inner ((key, sz) # size_dict) None seed w = Inl AttributeError \<and>
       RandomCrop_init inner ((key, val) # shape_dict) seed w = Inl AttributeError)
     [AddGaussianNoise it sd md r, Flip it pd r, Pad it zd vd r, RandomCrop it cd r]"
  by (simp add: AddGaussianNoise_init_def Flip_init_def Pad_init_def RandomCrop_init_def
      new_rnd_def check_noise_key_def check_flip_key_def check_pad_key_def check_crop_item_def
      check_5d_key_def check_present_ndarray_def)

text \<open>
  C3. \<open>AddGaussianNoise\<close> given standard deviations for some name and an empty mapping of
  means fails with an \<open>AssertionError\<close>, where \<open>Pad\<close>, given sizes for some name and an
  empty mapping of values, fails with the iterator validation error.
\<close>

theorem noise_key_mismatch_raises_AssertionError:
  "AddGaussianNoise_init it ((key, std) # std_dict) (Some []) seed w = Inl AssertionError \<and>
   Pad_init it ((key, sz) # size_dict) (Some []) seed w = Inl IteratorValidationError \<and>
   AssertionError \<noteq> IteratorValidationError"
  by (simp add: AddGaussianNoise_init_def Pad_init_def new_rnd_def)

section \<open>Pipelines on the example data\<close>

lemmas pipeline_defs =
  Undivided_init_def Pad_init_def Flip_init_def new_rnd_def new_dict_def
  assert_correct_data_format_def min_differs_max_def check_pad_key_def check_5d_key_def
  check_present_ndarray_def check_flip_key_def call_def receive_def on_batch_def
  slice_bound_def broadcastable_def assign_window_def flip_last_def empty_world_def

lemma upt_4: "[0..<4] = [0, 1, 2, 3]"
  by (simp add: upt_rec)

text \<open>
  C5. \<open>Pad\<close> accepts the size 0 for the example image and then fails on the first batch:
  the window \<open>0:-0\<close> is empty, and a 2 by 2 image does not broadcast to it.
\<close>

theorem pad_size_zero_raises_ValueError:
  "Undivided_init [(''default'', Arr image22)] empty_world
     = Inr (Undivided 0, \<lparr>dicts = [[(''default'', Arr image22)]], rnds = [], seen = []\<rparr>) \<and>
   Pad_init (Undivided 0) [(''default'', 0)] None seed
       \<lparr>dicts = [[(''default'', Arr image22)]], rnds = [], seen = []\<rparr>
     = Inr (Pad (Undivided 0) [(''default'', 0)] [] 0,
            \<lparr>dicts = [[(''default'', Arr image22)]], rnds = [seed], seen = []\<rparr>) \<and>
   call ops (Pad (Undivided 0) [(''default'', 0)] [] 0)
       \<lparr>dicts = [[(''default'', Arr image22)]], rnds = [seed], seen = []\<rparr>
     = Inl ValueError"
  by (simp add: pipeline_defs image22_def)

text \<open>
  C4. After one pass of \<open>Pad\<close> over \<open>Undivided\<close>, the dict held by the \<open>Undivided\<close>
  iterator binds the name to the padded array, not to the array it was constructed with.
\<close>

theorem decorator_changes_undivided_data:
  "Undivided_init [(''default'', Arr image22)] empty_world
     = Inr (Undivided 0, \<lparr>dicts = [[(''default'', Arr image22)]], rnds = [], seen = []\<rparr>) \<and>
   Pad_init (Undivided 0) [(''default'', 1)] None seed
       \<lparr>dicts = [[(''default'', Arr image22)]], rnds = [], seen = []\<rparr>
     = Inr (Pad (Undivided 0) [(''default'', 1)] [] 0,
            \<lparr>dicts = [[(''default'', Arr image22)]], rnds = [seed], seen = []\<rparr>) \<and>
   call ops (Pad (Undivided 0) [(''default'', 1)] [] 0)
       \<lparr>dicts = [[(''default'', Arr image22)]], rnds = [seed], seen = []\<rparr>
     = Inr \<lparr>dicts = [[(''default'', Arr padded22)]], rnds = [seed],
            seen = [[(''default'', Arr padded22)]]\<rparr> \<and>
   data_attr (Undivided 0)
       \<lparr>dicts = [[(''default'', Arr padded22)]], rnds = [seed],
        seen = [[(''default'', Arr padded22)]]\<rparr>
     = Inr [(''default'', Arr padded22)] \<and>
   padded22 \<noteq> image22"
  by (simp add: pipeline_defs image22_def padded22_def upt_4 numeral_3_eq_3)

text \<open>
  The same pass over \<open>Online\<close> leaves the dataset as it was: the batch is a dict of its
  own.
\<close>

lemma decorator_keeps_online_data:
  "call ops (Pad (Online False 0 1 0) [(''default'', 1)] [] 1)
       \<lparr>dicts = [[(''default'', Arr image22)]], rnds = [seed, seed'], seen = []\<rparr>
     = Inr \<lparr>dicts = [[(''default'', Arr image22)], [(''default'', Arr padded22)]],
            rnds = [seed, seed'], seen = [[(''default'', Arr padded22)]]\<rparr>"
  by (simp add: pipeline_defs arange_shuffled_def yield_slice_def getitem_samples_def
      slice_extent_def slice_list_def image22_def padded22_def upt_4 numeral_3_eq_3)

section \<open>Batches of the base iterators\<close>

















lemma upt_2: "[0..<2] = [0, 1]"
  by (simp add: upt_rec)











section \<open>Batches through the decorators\<close>






lemma upt_6: "[0..<6] = [0, 1, 2, 3, 4, 5]"
  by (simp add: upt_rec)
















lemma labelled_images_Flip_pass:
  "call demo_rng (Flip (Online True 0 2 0) [(''default'', 1)] 1)
       \<lparr>dicts = [labelled_images], rnds = [0, 0], seen = []\<rparr>
     = Inr \<lparr>dicts = [labelled_images,
                     [(''default'', Arr (NdArray [1, 1, 1, 2, 2]
                         (Dim [Dim [Dim [Dim [Dim [Elem 6, Elem 5], Dim [Elem 8, Elem 7]]]]]))),
                      (''targets'', Arr (NdArray [1, 1, 1] (Dim [Dim [Dim [Elem 1]]])))],
                     [(''default'', Arr flipped22),
                      (''targets'', Arr (NdArray [1, 1, 1] (Dim [Dim [Dim [Elem 0]]])))]],
            rnds = [1, 2],
            seen = [[(''default'', Arr (NdArray [1, 1, 1, 2, 2]
                         (Dim [Dim [Dim [Dim [Dim [Elem 6, Elem 5], Dim [Elem 8, Elem 7]]]]]))),
                      (''targets'', Arr (NdArray [1, 1, 1] (Dim [Dim [Dim [Elem 1]]])))],
                     [(''default'', Arr flipped22),
                      (''targets'', Arr (NdArray [1, 1, 1] (Dim [Dim [Dim [Elem 0]]])))]]\<rparr>"
  by (simp add: call_def arange_shuffled_def draw_def demo_rng_def on_batch_def flip_last_def
      upt_2 upt_4 numeral_3_eq_3 yield_slice_def new_dict_def receive_def getitem_samples_def
      slice_extent_def
      slice_list_def labelled_images_def two_images_def two_labels_def flipped22_def)





lemma wf_Dim: "wf_nd (n # s) x \<Longrightarrow> \<exists>xs. x = Dim xs \<and> length xs = n \<and> (\<forall>y \<in> set xs. wf_nd s y)"
  by (cases x) (auto simp: list_all_iff)






lemma length_5_shape:
  assumes "length (xs :: nat list) = 5"
  obtains T B C h w where "xs = [T, B, C, h, w]"
proof -
  from assms obtain T r1 where 1: "xs = T # r1" "length r1 = 4" by (cases xs) auto
  then obtain B r2 where 2: "r1 = B # r2" "length r2 = 3" by (cases r1) auto
  then obtain C r3 where 3: "r2 = C # r3" "length r3 = 2" by (cases r2) auto
  then obtain h r4 where 4: "r3 = h # r4" "length r4 = 1" by (cases r3) auto
  then obtain w where 5: "r4 = [w]" by (cases r4) auto
  from 1 2 3 4 5 that show ?thesis by simp
qed






lemma labelled_images_RandomCrop_pass:
  "call demo_rng (RandomCrop (Online True 0 2 0) [(''default'', [1, 1])] 1)
       \<lparr>dicts = [labelled_images], rnds = [0, 0], seen = []\<rparr>
     = Inr \<lparr>dicts = [labelled_images,
                     [(''default'', Arr (NdArray [1, 1, 1, 1, 1]
                         (Dim [Dim [Dim [Dim [Dim [Elem 8]]]]]))),
                      (''targets'', Arr (NdArray [1, 1, 1] (Dim [Dim [Dim [Elem 1]]])))],
                     [(''default'', Arr (NdArray [1, 1, 1, 1, 1]
                         (Dim [Dim [Dim [Dim [Dim [Elem 4]]]]]))),
                      (''targets'', Arr (NdArray [1, 1, 1] (Dim [Dim [Dim [Elem 0]]])))]],
            rnds = [1, 4],
            seen = [[(''default'', Arr (NdArray [1, 1, 1, 1, 1]
                         (Dim [Dim [Dim [Dim [Dim [Elem 8]]]]]))),
                      (''targets'', Arr (NdArray [1, 1, 1] (Dim [Dim [Dim [Elem 1]]])))],
                     [(''default'', Arr (NdArray [1, 1, 1, 1, 1]
                         (Dim [Dim [Dim [Dim [Dim [Elem 4]]]]]))),
                      (''targets'', Arr (NdArray [1, 1, 1] (Dim [Dim [Dim [Elem 0]]])))]]\<rparr>"
  by (simp add: call_def arange_shuffled_def draw_def demo_rng_def on_batch_def
      draw_integers_def crop_images_def crop_samples_def crop_image_def Let_def
      upt_2 upt_4 numeral_3_eq_3 yield_slice_def new_dict_def receive_def getitem_samples_def
      slice_extent_def
      slice_list_def labelled_images_def two_images_def two_labels_def)



section \<open>A second pass\<close>

text \<open>
  C9. Two passes of \<open>Pad\<close> over \<open>Undivided\<close>, which draws nothing, yield different
  batches: the second pass pads the array the first one left in the dataset. Two passes
  of \<open>Flip\<close> with probability 1 over \<open>Undivided\<close>, its generator put back to the same
  state before the second, yield different batches too.
\<close>

theorem second_pass_over_undivided_differs:
  "call ops (Pad (Undivided 0) [(''default'', 1)] [] 0)
       \<lparr>dicts = [[(''default'', Arr image22)]], rnds = [seed], seen = []\<rparr>
     = Inr \<lparr>dicts = [[(''default'', Arr padded22)]], rnds = [seed],
            seen = [[(''default'', Arr padded22)]]\<rparr> \<and>
   call ops (Pad (Undivided 0) [(''default'', 1)] [] 0)
       \<lparr>dicts = [[(''default'', Arr padded22)]], rnds = [seed],
        seen = [[(''default'', Arr padded22)]]\<rparr>
     = Inr \<lparr>dicts = [[(''default'', Arr padded22_twice)]], rnds = [seed],
            seen = [[(''default'', Arr padded22_twice)]]\<rparr> \<and>
   padded22_twice \<noteq> padded22 \<and>
   call demo_rng (Flip (Undivided 0) [(''default'', 1)] 0)
       \<lparr>dicts = [[(''default'', Arr image22)]], rnds = [0], seen = []\<rparr>
     = Inr \<lparr>dicts = [[(''default'', Arr flipped22)]], rnds = [1],
            seen = [[(''default'', Arr flipped22)]]\<rparr> \<and>
   call demo_rng (Flip (Undivided 0) [(''default'', 1)] 0)
       \<lparr>dicts = [[(''default'', Arr flipped22)]], rnds = [0],
        seen = [[(''default'', Arr flipped22)]]\<rparr>
     = Inr \<lparr>dicts = [[(''default'', Arr image22)]], rnds = [1],
            seen = [[(''default'', Arr image22)]]\<rparr> \<and>
   flipped22 \<noteq> image22"
  by (simp add: pipeline_defs image22_def padded22_def padded22_twice_def flipped22_def
      demo_rng_def upt_4 upt_6 numeral_3_eq_3)

section \<open>Padding by a positive size\<close>

text \<open>
  For a size of at least 1 the window \<open>size:-size\<close> has the extents of the source image,
  and the step of \<open>Pad.__call__\<close> for a name bound to an array of five axes returns, with
  the name bound to the padded array.
\<close>

lemma wf_map_axis:
  assumes "wf_nd (pre @ n # post) x"
    and "\<And>xs. length xs = n \<Longrightarrow> \<forall>y \<in> set xs. wf_nd post y \<Longrightarrow>
           length (f xs) = n' \<and> (\<forall>y \<in> set (f xs). wf_nd post' y)"
  shows "wf_nd (pre @ n' # post') (map_axis (length pre) f x)"
  using assms(1)
proof (induction pre arbitrary: x)
  case Nil
  then obtain xs where "x = Dim xs" "length xs = n" "\<forall>y \<in> set xs. wf_nd post y"
    using wf_Dim by fastforce
  with assms(2)[of xs] show ?case by (simp add: list_all_iff)
next
  case (Cons m pre)
  then obtain xs where x: "x = Dim xs" "length xs = m" "\<forall>y \<in> set xs. wf_nd (pre @ n # post) y"
    using wf_Dim by fastforce
  with Cons.IH show ?case by (simp add: list_all_iff)
qed

lemma get_map_axis:
  assumes "wf_nd (pre @ n # post) x" and "list_all2 (<) idx pre"
  shows "nd_get (map_axis (length pre) f x) idx = Dim (f (nd_items (nd_get x idx)))"
  using assms
proof (induction pre arbitrary: x idx)
  case Nil
  then obtain xs where "x = Dim xs" using wf_Dim by fastforce
  with Nil show ?case by simp
next
  case (Cons m pre)
  from Cons.prems(2) obtain i idx' where idx: "idx = i # idx'" "i < m" "list_all2 (<) idx' pre"
    by (cases idx) auto
  from Cons.prems(1) obtain xs where x: "x = Dim xs" "length xs = m"
    "\<forall>y \<in> set xs. wf_nd (pre @ n # post) y"
    using wf_Dim by fastforce
  from x idx(2) have "wf_nd (pre @ n # post) (xs ! i)" by simp
  from Cons.IH[OF this idx(3)] show ?case using x idx by simp
qed

lemma wf_get:
  assumes "wf_nd (pre @ post) x" and "list_all2 (<) idx pre"
  shows "wf_nd post (nd_get x idx)"
  using assms
proof (induction pre arbitrary: x idx)
  case Nil
  then show ?case by simp
next
  case (Cons m pre)
  from Cons.prems(2) obtain i idx' where idx: "idx = i # idx'" "i < m" "list_all2 (<) idx' pre"
    by (cases idx) auto
  from Cons.prems(1) obtain xs where x: "x = Dim xs" "length xs = m"
    "\<forall>y \<in> set xs. wf_nd (pre @ post) y"
    using wf_Dim[of m "pre @ post" x] by auto
  from x idx(2) have "wf_nd (pre @ post) (xs ! i)" by simp
  from Cons.IH[OF this idx(3)] show ?case using x idx by simp
qed

lemma assign_window_props:
  assumes "length rows = h" and "\<forall>y \<in> set rows. wf_nd [w] y"
    and "r1 = r0 + h" and "c1 = c0 + w"
  shows "length (assign_window val r0 r1 c0 c1 H W h w rows) = H"
    and "\<forall>y \<in> set (assign_window val r0 r1 c0 c1 H W h w rows). wf_nd [W] y"
    and "i < H \<Longrightarrow> j < W \<Longrightarrow>
           nd_get (Dim (assign_window val r0 r1 c0 c1 H W h w rows)) [i, j] =
           (if r0 \<le> i \<and> i < r0 + h \<and> c0 \<le> j \<and> j < c0 + w
            then nd_get (Dim rows) [i - r0, j - c0] else Elem val)"
proof -
  define g where "g = (\<lambda>i j.
          if r0 \<le> i \<and> i < r1 \<and> c0 \<le> j \<and> j < c1
          then nd_items (rows ! (if h = 1 then 0 else i - r0)) ! (if w = 1 then 0 else j - c0)
          else Elem val)"
  have aw: "assign_window val r0 r1 c0 c1 H W h w rows
      = map (\<lambda>i. Dim (map (g i) [0..<W])) [0..<H]"
    unfolding assign_window_def g_def ..
  have inside: "wf_nd [] (g i j) \<and> g i j = nd_items (rows ! (i - r0)) ! (j - c0)"
    if "r0 \<le> i" "i < r0 + h" "c0 \<le> j" "j < c0 + w" for i j
  proof -
    from that have i: "i - r0 < h" and j: "j - c0 < w" by simp_all
    have i0: "(if h = 1 then 0 else i - r0) = i - r0" using i by auto
    have j0: "(if w = 1 then 0 else j - c0) = j - c0" using j by auto
    from that assms(3,4) have "r0 \<le> i \<and> i < r1 \<and> c0 \<le> j \<and> j < c1" by simp
    then have gij: "g i j = nd_items (rows ! (i - r0)) ! (j - c0)"
      unfolding g_def i0 j0 by (simp only: if_True simp_thms)
    from i assms(1,2) have "wf_nd [w] (rows ! (i - r0))" by simp
    from wf_Dim[OF this] obtain es where es: "rows ! (i - r0) = Dim es" "length es = w"
      "\<forall>y \<in> set es. wf_nd [] y" by blast
    with j have "wf_nd [] (es ! (j - c0))" by simp
    with es gij show ?thesis by simp
  qed
  have outside: "g i j = Elem val"
    if "\<not> (r0 \<le> i \<and> i < r0 + h \<and> c0 \<le> j \<and> j < c0 + w)" for i j
  proof -
    from that assms(3,4) have "\<not> (r0 \<le> i \<and> i < r1 \<and> c0 \<le> j \<and> j < c1)" by simp
    then show ?thesis unfolding g_def by (simp only: if_False simp_thms)
  qed
  have wfg: "wf_nd [] (g i j)" for i j
  proof (cases "r0 \<le> i \<and> i < r0 + h \<and> c0 \<le> j \<and> j < c0 + w")
    case True
    with inside[of i j] show ?thesis by blast
  next
    case False
    from outside[OF this] show ?thesis by simp
  qed
  show "length (assign_window val r0 r1 c0 c1 H W h w rows) = H"
    by (simp add: aw)
  show "\<forall>y \<in> set (assign_window val r0 r1 c0 c1 H W h w rows). wf_nd [W] y"
    using wfg by (auto simp: aw list_all_iff)
  show "nd_get (Dim (assign_window val r0 r1 c0 c1 H W h w rows)) [i, j] =
           (if r0 \<le> i \<and> i < r0 + h \<and> c0 \<le> j \<and> j < c0 + w
            then nd_get (Dim rows) [i - r0, j - c0] else Elem val)" if "i < H" "j < W"
  proof -
    have "nd_get (Dim (assign_window val r0 r1 c0 c1 H W h w rows)) [i, j] = g i j"
      using that by (simp add: aw)
    also have "\<dots> = (if r0 \<le> i \<and> i < r0 + h \<and> c0 \<le> j \<and> j < c0 + w
            then nd_get (Dim rows) [i - r0, j - c0] else Elem val)"
    proof (cases "r0 \<le> i \<and> i < r0 + h \<and> c0 \<le> j \<and> j < c0 + w")
      case True
      with inside[of i j] have "g i j = nd_items (rows ! (i - r0)) ! (j - c0)" by blast
      moreover have "nd_get (Dim rows) [i - r0, j - c0] = nd_items (rows ! (i - r0)) ! (j - c0)"
        by simp
      ultimately show ?thesis by (simp only: if_P[OF True])
    next
      case False
      from outside[OF this] show ?thesis by (simp only: if_not_P[OF False])
    qed
    finally show ?thesis .
  qed
qed

lemma Pad_step_pads:
  assumes "map_of d name = Some (Arr a)" and "length (shape a) = 5"
    and "map_of size_dict name = Some sz" and "0 < sz"
  shows "\<exists>b. Pad_step size_dict value_dict name (s, d) = Inr (s, AList.update name (Arr b) d) \<and>
           pad_of a (nat sz) (case map_of value_dict name of None \<Rightarrow> 0 | Some v \<Rightarrow> v) b"
proof -
  from assms(2) obtain T B C h w where sh: "shape a = [T, B, C, h, w]" by (rule length_5_shape)
  define p where "p = nat sz"
  define val where "val = (case map_of value_dict name of None \<Rightarrow> 0 | Some v \<Rightarrow> v)"
  have sz: "sz = int p" "0 < p" using assms(4) by (simp_all add: p_def)
  define H where "H = h + 2 * p"
  define W where "W = w + 2 * p"
  have HW: "int h + 2 * sz = int H" "int w + 2 * sz = int W" by (simp_all add: H_def W_def sz)
  have b0: "slice_bound sz H = p" "slice_bound sz W = p"
    using sz by (simp_all add: slice_bound_def H_def W_def)
  have b1: "slice_bound (- sz) H = p + h" "slice_bound (- sz) W = p + w"
    using sz by (auto simp: slice_bound_def H_def W_def)
  define b where "b = NdArray [T, B, C, H, W]
      (map_axis 3 (assign_window val p (p + h) p (p + w) H W h w) (buffer a))"
  have step: "Pad_step size_dict value_dict name (s, d) = Inr (s, AList.update name (Arr b) d)"
    using assms(1,3) sh HW b0 b1
    by (simp add: Let_def broadcastable_def b_def val_def)
  have wf: "wf_array b \<and>
      (\<forall>t < T. \<forall>n < B. \<forall>c < C. \<forall>i < H. \<forall>j < W.
         nd_get (buffer b) [t, n, c, i, j] =
         (if p \<le> i \<and> i < p + h \<and> p \<le> j \<and> j < p + w
          then nd_get (buffer a) [t, n, c, i - p, j - p] else Elem val))"
    if "wf_array a"
  proof -
    from that sh have w: "wf_nd ([T, B, C] @ h # [w]) (buffer a)" by (simp add: wf_array_def)
    let ?f = "assign_window val p (p + h) p (p + w) H W h w"
    have aw: "length (?f xs) = H \<and> (\<forall>y \<in> set (?f xs). wf_nd [W] y)"
      if "length xs = h" "\<forall>y \<in> set xs. wf_nd [w] y" for xs
      using assign_window_props(1,2)[OF that refl refl] by blast
    have "wf_nd ([T, B, C] @ H # [W]) (map_axis (length [T, B, C]) ?f (buffer a))"
      using w aw by (rule wf_map_axis)
    then have wfb: "wf_array b" by (simp add: wf_array_def b_def numeral_3_eq_3)
    have "nd_get (buffer b) [t, n, c, i, j] =
         (if p \<le> i \<and> i < p + h \<and> p \<le> j \<and> j < p + w
          then nd_get (buffer a) [t, n, c, i - p, j - p] else Elem val)"
      if idx: "t < T" "n < B" "c < C" "i < H" "j < W" for t n c i j
    proof -
      from idx have l: "list_all2 (<) [t, n, c] [T, B, C]" by simp
      have g: "nd_get (map_axis (length [T, B, C]) ?f (buffer a)) [t, n, c]
          = Dim (?f (nd_items (nd_get (buffer a) [t, n, c])))"
        by (rule get_map_axis[OF w l])
      have "wf_nd (h # [w]) (nd_get (buffer a) [t, n, c])"
        using wf_get[OF _ l, of "h # [w]" "buffer a"] w by simp
      from wf_Dim[OF this] obtain rows where rows: "nd_get (buffer a) [t, n, c] = Dim rows"
        "length rows = h" "\<forall>y \<in> set rows. wf_nd [w] y" by blast
      have split: "nd_get x [t, n, c, i', j'] = nd_get (nd_get x [t, n, c]) [i', j']"
        for x i' j'
        by simp
      have inner: "nd_get (Dim rows) [i - p, j - p] = nd_get (buffer a) [t, n, c, i - p, j - p]"
        unfolding split[of "buffer a"] rows(1) ..
      have "nd_get (buffer b) [t, n, c, i, j] = nd_get (Dim (?f rows)) [i, j]"
        unfolding split using g rows(1) by (simp add: b_def numeral_3_eq_3)
      also have "\<dots> = (if p \<le> i \<and> i < p + h \<and> p \<le> j \<and> j < p + w
            then nd_get (Dim rows) [i - p, j - p] else Elem val)"
        by (rule assign_window_props(3)[OF rows(2,3) refl refl idx(4,5)])
      finally show ?thesis unfolding inner .
    qed
    with wfb show ?thesis by blast
  qed
  have "pad_of a p val b"
    unfolding pad_of_def using wf sh by (simp add: b_def H_def W_def)
  with step show ?thesis unfolding p_def val_def by blast
qed

end
